theory Spec2Isabelle
  imports Complex_Main "HOL-Library.Sublist"
begin

section \<open>Python strings\<close>

text \<open>
  A Python \<open>str\<close> is a sequence of Unicode code points, so it is modelled as a list of
  natural numbers; \<open>len\<close> is \<open>length\<close>.  The literals of \<open>app.py\<close> that are plain ASCII
  are written through \<open>u\<close>; the two Devanagari literals are written code point by code point.
\<close>

type_synonym ustr = "nat list"

definition u :: "string \<Rightarrow> ustr" where
  "u s = map of_char s"

text \<open>\<open>k in s\<close> for two strings: \<open>k\<close> occurs in \<open>s\<close> as a contiguous substring.\<close>

fun py_in :: "'a list \<Rightarrow> 'a list \<Rightarrow> bool" where
  "py_in k [] = (k = [])"
| "py_in k (c # cs) = (prefix k (c # cs) \<or> py_in k cs)"

text \<open>The code points for which \<open>str.isspace\<close> holds; \<open>str.strip()\<close> removes them at both ends.\<close>

definition isspace :: "nat \<Rightarrow> bool" where
  "isspace c =
     ((9 \<le> c \<and> c \<le> 13) \<or> (28 \<le> c \<and> c \<le> 32) \<or> c = 133 \<or> c = 160 \<or> c = 5760 \<or>
      (8192 \<le> c \<and> c \<le> 8202) \<or> c = 8232 \<or> c = 8233 \<or> c = 8239 \<or> c = 8287 \<or> c = 12288)"

definition py_strip_with :: "('a \<Rightarrow> bool) \<Rightarrow> 'a list \<Rightarrow> 'a list" where
  "py_strip_with p s = rev (dropWhile p (rev (dropWhile p s)))"

definition py_strip :: "ustr \<Rightarrow> ustr" where
  "py_strip s = py_strip_with isspace s"

text \<open>\<open>s.strip(chars)\<close>: removes the code points of \<open>chars\<close> at both ends.\<close>

definition py_strip_chars :: "ustr \<Rightarrow> ustr \<Rightarrow> ustr" where
  "py_strip_chars chars s = py_strip_with (\<lambda>c. c \<in> set chars) s"

text \<open>
  \<open>s.replace(old, new)\<close>: one pass from the left over non-overlapping occurrences; the
  text produced by a replacement is not scanned again.
\<close>

fun py_replace :: "'a list \<Rightarrow> 'a list \<Rightarrow> 'a list \<Rightarrow> 'a list" where
  "py_replace old new [] = (if old = [] then new else [])"
| "py_replace old new (c # cs) =
     (if old = [] then new @ c # py_replace old new cs
      else if prefix old (c # cs) then new @ py_replace old new (drop (length old) (c # cs))
      else c # py_replace old new cs)"

text \<open>\<open>s.split(sep)\<close> for a one-character separator: never empty, \<open>''.split(sep) = ['']\<close>.\<close>

fun py_split :: "'a \<Rightarrow> 'a list \<Rightarrow> 'a list list" where
  "py_split sep [] = [[]]"
| "py_split sep (c # cs) =
     (if c = sep then [] # py_split sep cs
      else (case py_split sep cs of [] \<Rightarrow> [[c]] | w # ws \<Rightarrow> (c # w) # ws))"

text \<open>
  \<open>round(x, n)\<close> on the number a float denotes: to the nearest multiple of \<open>10^-n\<close>, a tie
  going to the even one.
\<close>

definition round_half_even :: "real \<Rightarrow> int" where
  "round_half_even y =
     (let f = \<lfloor>y\<rfloor>; d = y - of_int f
      in if d < 1 / 2 then f else if 1 / 2 < d then f + 1 else if even f then f else f + 1)"

definition py_round :: "real \<Rightarrow> nat \<Rightarrow> real" where
  "py_round x n = of_int (round_half_even (x * 10 ^ n)) / 10 ^ n"


section \<open>Data model\<close>

datatype risk = Low | Medium | High | Critical

text \<open>
  The request sent to the chat-completion API.  The two prompt texts are fixed apart from the
  interpolated fields, so a request is its mode, the interpolated fields (the clause, the
  label, the risk level, and the template in refinement mode or the rule summary otherwise)
  and \<open>max_tokens\<close>.
\<close>

datatype prompt_mode = RefineTemplate | GenerateFresh

datatype llm_request = LLMRequest prompt_mode ustr ustr risk ustr nat

text \<open>
  What \<open>requests.post\<close> gives back: an exception, or a response with a status code whose body
  either is not JSON or is a JSON object; \<open>data.get('choices')\<close> is \<open>None\<close> or a list, whose
  first element either has a string at \<open>['message']['content']\<close> or makes the access raise.
\<close>

datatype choice = Message ustr | BadChoice

datatype json_body = NotJson | Json "choice list option"

datatype http_result = ConnectionFailed | Response nat json_body

text \<open>The calls to the external collaborators, in the order they are made.\<close>

datatype call =
    GoogleTranslate ustr
  | BertClassify ustr
  | T5Summarize ustr
  | OpenRouterPost llm_request
  | LimeExplain ustr nat

text \<open>
  The resources loaded at start-up and the collaborators behind them.  \<open>str_lower\<close> is
  Python's \<open>str.lower\<close> (Unicode case tables); \<open>bert_model\<close> is tokenizer and model
  together and returns the row of logits, which has at least one entry (the first logit
  and the others); \<open>torch_softmax logits i\<close> is \<open>torch.softmax(logits, dim=1)[0][i].item()\<close>, the
  number that the library computes in 32-bit floating point (it is not recomputed here, since
  it is not the exact quotient of exponentials); \<open>translator\<close>, \<open>t5_model\<close> and \<open>explainer\<close>
  return \<open>None\<close> when the call raises.  A float is read as the number it denotes.
\<close>

record resources =
  str_lower :: "ustr \<Rightarrow> ustr"
  risk_rules :: "ustr \<rightharpoonup> ustr list"
  id2label :: "nat \<rightharpoonup> ustr"
  bert_model :: "ustr \<Rightarrow> real \<times> real list"
  torch_softmax :: "real \<times> real list \<Rightarrow> nat \<Rightarrow> real"
  translator :: "ustr \<Rightarrow> ustr option"
  t5_model :: "ustr \<Rightarrow> ustr option"
  openrouter :: "llm_request \<Rightarrow> http_result"
  explainer :: "ustr \<Rightarrow> nat \<Rightarrow> (ustr \<times> real) list option"

text \<open>The dictionary returned by \<open>analyze_single_clause\<close>.\<close>

record analysis_record =
  text_field :: ustr
  label :: ustr
  risk_level :: risk
  confidence :: real
  rule_summary :: ustr
  safer_alternative :: ustr
  lime_explanation :: "(ustr \<times> real) list"


section \<open>Helper functions of the service\<close>

subsection \<open>\<open>translate_to_english\<close>\<close>

definition HINDI_LIABLE :: ustr where
  "HINDI_LIABLE = [2313, 2340, 2381, 2340, 2352, 2342, 2366, 2351, 2368]"

definition HINDI_DAMAGES :: ustr where
  "HINDI_DAMAGES = [2361, 2352, 2381, 2332, 2364, 2366, 2344, 2366]"

definition LIABLE_TRANSLATION :: ustr where
  "LIABLE_TRANSLATION = u ''If a party breaches the contract, they will be liable to pay damages.''"

definition translate_to_english :: "resources \<Rightarrow> ustr \<Rightarrow> ustr \<times> call list" where
  "translate_to_english res txt =
     (if py_in HINDI_LIABLE txt \<or> py_in HINDI_DAMAGES txt then (LIABLE_TRANSLATION, [])
      else ((case translator res txt of None \<Rightarrow> txt | Some t \<Rightarrow> t), [GoogleTranslate txt]))"

subsection \<open>\<open>generate_t5_summary\<close>\<close>

definition generate_t5_summary :: "resources \<Rightarrow> ustr \<Rightarrow> ustr \<times> call list" where
  "generate_t5_summary res txt =
     ((case t5_model res txt of None \<Rightarrow> u ''Summary unavailable.'' | Some s \<Rightarrow> s),
      [T5Summarize txt])"

subsection \<open>\<open>generate_gemini_safer_alternative\<close>\<close>

definition GEMINI_PREFIXES :: "ustr list" where
  "GEMINI_PREFIXES =
     [u ''Safer clause:'', u ''Alternative:'', u ''Here's a safer alternative:'',
      u ''Safer alternative:'', u ''Refined clause:'']"

definition remove_prefix :: "resources \<Rightarrow> ustr \<Rightarrow> ustr \<Rightarrow> ustr" where
  "remove_prefix res s p =
     (if prefix (str_lower res p) (str_lower res s) then py_strip (drop (length p) s) else s)"

definition clean_response :: "resources \<Rightarrow> ustr \<Rightarrow> ustr" where
  "clean_response res content =
     foldl (remove_prefix res)
       (py_strip (py_strip_chars [39] (py_strip_chars [34] (py_strip content))))
       GEMINI_PREFIXES"

definition gemini_request :: "ustr \<Rightarrow> ustr \<Rightarrow> risk \<Rightarrow> ustr \<Rightarrow> ustr \<Rightarrow> llm_request" where
  "gemini_request clause_text clause_label lvl summary ml_suggestion =
     (if ml_suggestion \<noteq> [] \<and> 50 < length ml_suggestion
      then LLMRequest RefineTemplate clause_text clause_label lvl ml_suggestion 150
      else LLMRequest GenerateFresh clause_text clause_label lvl summary 200)"

definition read_response :: "resources \<Rightarrow> http_result \<Rightarrow> ustr option" where
  "read_response res r =
     (case r of
        ConnectionFailed \<Rightarrow> None
      | Response status body \<Rightarrow>
          if status = 200 then
            (case body of
               NotJson \<Rightarrow> None
             | Json None \<Rightarrow> None
             | Json (Some []) \<Rightarrow> None
             | Json (Some (BadChoice # _)) \<Rightarrow> None
             | Json (Some (Message content # _)) \<Rightarrow>
                 (let gemini_suggestion = clean_response res content
                  in if 300 < length gemini_suggestion then None else Some gemini_suggestion))
          else None)"

definition generate_gemini_safer_alternative ::
  "resources \<Rightarrow> ustr \<Rightarrow> ustr \<Rightarrow> risk \<Rightarrow> ustr \<Rightarrow> ustr \<Rightarrow> ustr option \<times> call list" where
  "generate_gemini_safer_alternative res clause_text clause_label lvl summary ml_suggestion =
     (let req = gemini_request clause_text clause_label lvl summary ml_suggestion
      in (read_response res (openrouter res req), [OpenRouterPost req]))"


section \<open>\<open>analyze_single_clause\<close>\<close>

subsection \<open>Language branch\<close>

definition is_hindi :: "ustr \<Rightarrow> bool" where
  "is_hindi clause = list_ex (\<lambda>c. 2304 \<le> c \<and> c \<le> 2431) clause"

definition language_branch :: "resources \<Rightarrow> ustr \<Rightarrow> ustr \<times> call list" where
  "language_branch res clause =
     (if is_hindi clause then translate_to_english res clause else (clause, []))"

subsection \<open>BERT prediction\<close>

text \<open>\<open>torch.argmax\<close>: the index of the first maximal logit.\<close>

fun argmax_from :: "nat \<Rightarrow> real \<Rightarrow> nat \<Rightarrow> real list \<Rightarrow> nat" where
  "argmax_from bi bv i [] = bi"
| "argmax_from bi bv i (x # xs) =
     (if bv < x then argmax_from i x (Suc i) xs else argmax_from bi bv (Suc i) xs)"

definition argmax :: "real \<times> real list \<Rightarrow> nat" where
  "argmax logits = argmax_from 0 (fst logits) 1 (snd logits)"

definition pred_id_of :: "resources \<Rightarrow> ustr \<Rightarrow> nat" where
  "pred_id_of res txt = argmax (bert_model res txt)"

definition confidence_of :: "resources \<Rightarrow> ustr \<Rightarrow> real" where
  "confidence_of res txt = torch_softmax res (bert_model res txt) (pred_id_of res txt)"

definition label_of :: "resources \<Rightarrow> ustr \<Rightarrow> ustr" where
  "label_of res txt =
     (case id2label res (pred_id_of res txt) of None \<Rightarrow> u ''Unknown'' | Some l \<Rightarrow> l)"

subsection \<open>Risk logic\<close>

text \<open>The keyword loop with its \<open>break\<close>: the scan stops at the first keyword found.\<close>

primrec keyword_scan :: "ustr list \<Rightarrow> ustr \<Rightarrow> bool" where
  "keyword_scan [] lower_text = False"
| "keyword_scan (k # ks) lower_text =
     (if py_in k lower_text then True else keyword_scan ks lower_text)"

definition HIGH_STAKES_LABELS :: "ustr list" where
  "HIGH_STAKES_LABELS = [u ''Indemnity'', u ''Liability'', u ''Termination'']"

definition after_high_rules :: "resources \<Rightarrow> ustr \<Rightarrow> risk" where
  "after_high_rules res lower_text =
     (case risk_rules res (u ''High'') of
        None \<Rightarrow> Low
      | Some ks \<Rightarrow> if keyword_scan ks lower_text then High else Low)"

definition after_medium_rules :: "resources \<Rightarrow> ustr \<Rightarrow> risk" where
  "after_medium_rules res lower_text =
     (let final_risk = after_high_rules res lower_text
      in if final_risk \<noteq> High then
           (case risk_rules res (u ''Medium'') of
              None \<Rightarrow> final_risk
            | Some ks \<Rightarrow> if keyword_scan ks lower_text then Medium else final_risk)
         else final_risk)"

definition risk_logic :: "resources \<Rightarrow> ustr \<Rightarrow> ustr \<Rightarrow> risk" where
  "risk_logic res lower_text clause_label =
     (let final_risk = after_medium_rules res lower_text
      in if final_risk \<noteq> High \<and> clause_label \<in> set HIGH_STAKES_LABELS then High
         else final_risk)"

subsection \<open>Summary\<close>

definition summary_step :: "resources \<Rightarrow> bool \<Rightarrow> ustr \<Rightarrow> ustr \<Rightarrow> ustr \<times> call list" where
  "summary_step res hindi txt lower_text =
     (if hindi then
        (u ''This Hindi clause (translated) outlines responsibilities. Please review the English translation carefully.'', [])
      else if py_in (u ''liability'') lower_text \<or> py_in (u ''indemnification'') lower_text then
        (u ''This clause outlines who is financially responsible if something goes wrong (liability) and who must pay legal costs (indemnity).'', [])
      else if py_in (u ''termination'') lower_text then
        (u ''This clause defines when and how the agreement can be ended.'', [])
      else if py_in (u ''force majeure'') lower_text
              \<or> py_in (u ''force_majeure'') (str_lower res lower_text) then
        (u ''This clause addresses circumstances beyond either party's control that may prevent performance of the agreement.'', [])
      else if py_in (u ''breach'') lower_text
              \<and> (py_in (u ''penalty'') lower_text \<or> py_in (u ''penalties'') lower_text
                   \<or> py_in (u ''damages'') lower_text) then
        (u ''This clause defines penalties and remedies for breach of contract.'', [])
      else generate_t5_summary res txt)"

subsection \<open>Safer alternative: template, then optional refinement\<close>

definition SAFE_LIABILITY :: ustr where
  "SAFE_LIABILITY = u ''The Provider's total liability under this Agreement shall not exceed the total fees paid by the Client during the preceding 12 months.''"

definition SAFE_TERMINATION :: ustr where
  "SAFE_TERMINATION = u ''Either party may terminate this Agreement for convenience upon providing thirty (30) days' prior written notice to the other party.''"

definition SAFE_INDEMNITY :: ustr where
  "SAFE_INDEMNITY = u ''Indemnification shall be limited to third-party claims arising directly from gross negligence or willful misconduct.''"

definition SAFE_FORCE_MAJEURE :: ustr where
  "SAFE_FORCE_MAJEURE = u ''Neither party shall be liable for any failure or delay in performance under this Agreement due to circumstances beyond its reasonable control, including but not limited to acts of God, natural disasters, war, terrorism, labor disputes, or government actions. The affected party shall notify the other party promptly and use reasonable efforts to resume performance.''"

definition SAFE_BREACH_PENALTIES :: ustr where
  "SAFE_BREACH_PENALTIES = u ''In the event of a material breach, the non-breaching party may terminate this Agreement upon thirty (30) days' written notice, provided the breaching party fails to cure such breach within such notice period. Remedies shall be limited to termination and recovery of actual damages directly caused by the breach.''"

definition SAFE_NON_COMPETE :: ustr where
  "SAFE_NON_COMPETE = u ''During the term of this Agreement and for a period of twelve (12) months thereafter, the Employee agrees not to engage in any business activity that directly competes with the Employer's business, provided such restriction is limited to the geographic area where the Employer operates and is necessary to protect the Employer's legitimate business interests.''"

definition SAFE_CONFIDENTIALITY :: ustr where
  "SAFE_CONFIDENTIALITY = u ''Each party agrees to maintain the confidentiality of all proprietary and confidential information disclosed by the other party, using the same degree of care as it uses to protect its own confidential information, but in no event less than reasonable care. This obligation shall survive termination of this Agreement for a period of three (3) years.''"

definition SAFE_GENERAL :: ustr where
  "SAFE_GENERAL = u ''The parties agree to resolve any disputes through mutual consultation before seeking other legal remedies.''"

definition SAFE_CATALOG :: "ustr list" where
  "SAFE_CATALOG =
     [SAFE_LIABILITY, SAFE_TERMINATION, SAFE_INDEMNITY, SAFE_FORCE_MAJEURE,
      SAFE_BREACH_PENALTIES, SAFE_NON_COMPETE, SAFE_CONFIDENTIALITY, SAFE_GENERAL]"

definition label_lower_of :: "resources \<Rightarrow> ustr \<Rightarrow> ustr" where
  "label_lower_of res clause_label =
     (if clause_label \<noteq> [] then str_lower res clause_label else [])"

definition select_template :: "ustr \<Rightarrow> ustr \<Rightarrow> ustr" where
  "select_template label_lower lower_text =
     (if py_in (u ''force'') label_lower \<and> py_in (u ''majeure'') label_lower then
        SAFE_FORCE_MAJEURE
      else if py_in (u ''breach'') label_lower
              \<and> (py_in (u ''penalty'') label_lower \<or> py_in (u ''penalties'') label_lower) then
        SAFE_BREACH_PENALTIES
      else if py_in (u ''liability'') label_lower then SAFE_LIABILITY
      else if py_in (u ''termination'') label_lower then SAFE_TERMINATION
      else if py_in (u ''indemnity'') label_lower \<or> py_in (u ''indemnification'') label_lower then
        SAFE_INDEMNITY
      else if py_in (u ''non-compete'') label_lower \<or> py_in (u ''noncompete'') label_lower
              \<or> py_in (u ''non_compete'') label_lower then
        SAFE_NON_COMPETE
      else if py_in (u ''confidentiality'') label_lower \<or> py_in (u ''nda'') label_lower
              \<or> py_in (u ''non-disclosure'') label_lower then
        SAFE_CONFIDENTIALITY
      else if py_in (u ''force majeure'') lower_text \<or> py_in (u ''force_majeure'') lower_text then
        SAFE_FORCE_MAJEURE
      else if (py_in (u ''breach'') lower_text
                 \<and> (py_in (u ''penalty'') lower_text \<or> py_in (u ''penalties'') lower_text))
              \<or> (py_in (u ''liable'') lower_text \<and> py_in (u ''damages'') lower_text
                   \<and> py_in (u ''injunctive'') lower_text) then
        SAFE_BREACH_PENALTIES
      else if py_in (u ''liability'') lower_text
              \<or> (py_in (u ''liable'') lower_text \<and> py_in (u ''damages'') lower_text) then
        SAFE_LIABILITY
      else if py_in (u ''termination'') lower_text then SAFE_TERMINATION
      else if py_in (u ''indemnity'') lower_text \<or> py_in (u ''indemnification'') lower_text then
        SAFE_INDEMNITY
      else if py_in (u ''non-compete'') lower_text \<or> py_in (u ''noncompete'') lower_text
              \<or> py_in (u ''non_compete'') lower_text then
        SAFE_NON_COMPETE
      else if py_in (u ''confidentiality'') lower_text \<or> py_in (u ''nda'') lower_text
              \<or> py_in (u ''non-disclosure'') lower_text then
        SAFE_CONFIDENTIALITY
      else SAFE_GENERAL)"

definition COMMON_CLAUSE_TYPES :: "ustr list" where
  "COMMON_CLAUSE_TYPES =
     [u ''force majeure'', u ''liability'', u ''termination'', u ''indemnity'', u ''breach'',
      u ''penalty'']"

definition is_common_type :: "resources \<Rightarrow> ustr \<Rightarrow> bool" where
  "is_common_type res clause_label =
     list_ex (\<lambda>common. py_in common (label_lower_of res clause_label)) COMMON_CLAUSE_TYPES"

text \<open>
  The test on the answer of \<open>generate_gemini_safer_alternative\<close>:
  \<open>gemini_suggestion and 20 < len(gemini_suggestion) <= 250\<close>.
\<close>

definition accept_refinement :: "ustr option \<Rightarrow> ustr \<Rightarrow> ustr" where
  "accept_refinement gemini_suggestion ml_suggestion =
     (case gemini_suggestion of
        None \<Rightarrow> ml_suggestion
      | Some s \<Rightarrow> if s \<noteq> [] \<and> 20 < length s \<and> length s \<le> 250 then s else ml_suggestion)"

definition suggestion_step ::
  "resources \<Rightarrow> ustr \<Rightarrow> ustr \<Rightarrow> risk \<Rightarrow> ustr \<Rightarrow> ustr \<Rightarrow> ustr \<times> call list" where
  "suggestion_step res txt clause_label final_risk summary lower_text =
     (if final_risk = High \<or> final_risk = Critical then
        (let ml_suggestion = select_template (label_lower_of res clause_label) lower_text
         in if \<not> is_common_type res clause_label \<and> ml_suggestion = SAFE_GENERAL then
              (let g = generate_gemini_safer_alternative res txt clause_label final_risk
                         summary ml_suggestion
               in (accept_refinement (fst g) ml_suggestion, snd g))
            else (ml_suggestion, []))
      else ([], []))"

subsection \<open>LIME explanation\<close>

definition lime_step :: "resources \<Rightarrow> ustr \<Rightarrow> nat \<Rightarrow> (ustr \<times> real) list" where
  "lime_step res txt pred_id =
     (case explainer res txt pred_id of
        None \<Rightarrow> []
      | Some lime_list \<Rightarrow> map (\<lambda>p. (fst p, py_round (snd p) 3)) lime_list)"

subsection \<open>The whole analysis\<close>

definition analyze_single_clause :: "resources \<Rightarrow> ustr \<Rightarrow> analysis_record \<times> call list" where
  "analyze_single_clause res clause =
     (let lb = language_branch res clause;
          txt = fst lb;
          pred_id = pred_id_of res txt;
          lower_text = str_lower res txt;
          final_risk = risk_logic res lower_text (label_of res txt);
          sm = summary_step res (is_hindi clause) txt lower_text;
          sg = suggestion_step res txt (label_of res txt) final_risk (fst sm) lower_text
      in (\<lparr>text_field = clause,
           label = label_of res txt,
           risk_level = final_risk,
           confidence = py_round (confidence_of res txt * 100) 2,
           rule_summary = fst sm,
           safer_alternative = fst sg,
           lime_explanation = lime_step res txt pred_id\<rparr>,
          snd lb @ [BertClassify txt] @ snd sm @ snd sg @ [LimeExplain txt pred_id]))"


section \<open>API routes\<close>

datatype http_error = HttpError nat ustr

text \<open>\<open>request.json.get('text', '')\<close>: the body's \<open>text\<close> entry, the empty string when absent.\<close>

definition request_text :: "ustr option \<Rightarrow> ustr" where
  "request_text body = (case body of None \<Rightarrow> [] | Some t \<Rightarrow> t)"

definition START_MARKER :: ustr where
  "START_MARKER = u ''[Start of Document]''"

definition END_MARKER :: ustr where
  "END_MARKER = u ''[End of Document]''"

definition segment_clauses :: "ustr \<Rightarrow> ustr list" where
  "segment_clauses raw_text =
     (let clean_text = py_replace END_MARKER [] (py_replace START_MARKER [] raw_text);
          clauses = filter (\<lambda>c. c \<noteq> []) (map py_strip (py_split 10 clean_text))
      in filter (\<lambda>c. 20 < length c) clauses)"

definition processed_clauses :: "ustr \<Rightarrow> ustr list" where
  "processed_clauses raw_text =
     (let processed = segment_clauses raw_text
      in if processed = [] then [raw_text] else processed)"

fun analyze_all :: "resources \<Rightarrow> ustr list \<Rightarrow> analysis_record list \<times> call list" where
  "analyze_all res [] = ([], [])"
| "analyze_all res (clause # rest) =
     (let r = analyze_single_clause res clause; rs = analyze_all res rest
      in (fst r # fst rs, snd r @ snd rs))"

definition analyze_document ::
  "resources \<Rightarrow> ustr option \<Rightarrow> (http_error + analysis_record list) \<times> call list" where
  "analyze_document res body =
     (let raw_text = request_text body
      in if raw_text = [] then (Inl (HttpError 400 (u ''Empty text'')), [])
         else (let rs = analyze_all res (processed_clauses raw_text) in (Inr (fst rs), snd rs)))"

definition summarize :: "resources \<Rightarrow> ustr option \<Rightarrow> (http_error + ustr) \<times> call list" where
  "summarize res body =
     (let analysis = analyze_single_clause res (request_text body)
      in (Inr (rule_summary (fst analysis)), snd analysis))"


section \<open>Vocabulary of the properties\<close>

text \<open>
  The text the pipeline works on after the language branch (the variable \<open>text\<close> of
  \<open>analyze_single_clause\<close>).
\<close>

definition working_text :: "resources \<Rightarrow> ustr \<Rightarrow> ustr" where
  "working_text res clause = fst (language_branch res clause)"

text \<open>
  The lower-cased text contains a configured keyword of the given level: the level is a key
  of \<open>risk_rules\<close> and one of its keywords is a substring of the text.
\<close>

definition has_keyword :: "resources \<Rightarrow> ustr \<Rightarrow> ustr \<Rightarrow> bool" where
  "has_keyword res level lower_text =
     (case risk_rules res level of
        None \<Rightarrow> False
      | Some ks \<Rightarrow> list_ex (\<lambda>k. py_in k lower_text) ks)"


section \<open>Example resources\<close>

text \<open>
  \<open>str.lower\<close> on ASCII text, and a small configuration for concrete runs: one High keyword,
  one Medium keyword, a classifier with two classes that answers two equal logits (so class
  0 is predicted, and the softmax of the two equal logits is one half for each class, which
  32-bit floating point computes exactly), and collaborators that fail, except for the reply
  of the chat-completion API, which is a parameter like the name of class 0.
\<close>

definition ascii_lower :: "ustr \<Rightarrow> ustr" where
  "ascii_lower s = map (\<lambda>c. if 65 \<le> c \<and> c \<le> 90 then c + 32 else c) s"

definition example_rules :: "ustr \<rightharpoonup> ustr list" where
  "example_rules =
     map_of [(u ''High'', [u ''unlimited'']), (u ''Medium'', [u ''penalty''])]"

definition example_resources :: "ustr \<Rightarrow> http_result \<Rightarrow> resources" where
  "example_resources class0 reply =
     \<lparr>str_lower = ascii_lower,
      risk_rules = example_rules,
      id2label = map_of [(0, class0), (1, u ''Other'')],
      bert_model = (\<lambda>_. (0, [0])),
      torch_softmax = (\<lambda>_ _. 1 / 2),
      translator = (\<lambda>_. None),
      t5_model = (\<lambda>_. None),
      openrouter = (\<lambda>_. reply),
      explainer = (\<lambda>_ _. None)\<rparr>"

section \<open>Facts about the string functions and the risk logic\<close>

lemma py_in_iff: "py_in k s \<longleftrightarrow> (\<exists>p q. s = p @ k @ q)"
proof (induction s)
  case Nil
  then show ?case by auto
next
  case (Cons c cs)
  show ?case
  proof
    assume "py_in k (c # cs)"
    then consider "prefix k (c # cs)" | "py_in k cs" by auto
    then show "\<exists>p q. c # cs = p @ k @ q"
    proof cases
      case 1
      then obtain q where "c # cs = k @ q" by (auto simp: prefix_def)
      then have "c # cs = [] @ k @ q" by simp
      then show ?thesis by blast
    next
      case 2
      then obtain p q where "cs = p @ k @ q" using Cons.IH by blast
      then have "c # cs = (c # p) @ k @ q" by simp
      then show ?thesis by blast
    qed
  next
    assume "\<exists>p q. c # cs = p @ k @ q"
    then obtain p q where pq: "c # cs = p @ k @ q" by blast
    show "py_in k (c # cs)"
    proof (cases p)
      case Nil
      then have "prefix k (c # cs)" using pq by (simp add: prefix_def)
      then show ?thesis by simp
    next
      case (Cons a p')
      then have "cs = p' @ k @ q" using pq by simp
      then have "py_in k cs" using Cons.IH by blast
      then show ?thesis by simp
    qed
  qed
qed

lemma keyword_scan_iff: "keyword_scan ks t = list_ex (\<lambda>k. py_in k t) ks"
  by (induction ks) auto

lemma after_high_rules_eq:
  "after_high_rules res t = (if has_keyword res (u ''High'') t then High else Low)"
  by (simp add: after_high_rules_def has_keyword_def keyword_scan_iff split: option.splits)

lemma after_medium_rules_eq:
  "after_medium_rules res t =
     (if has_keyword res (u ''High'') t then High
      else if has_keyword res (u ''Medium'') t then Medium else Low)"
  by (simp add: after_medium_rules_def after_high_rules_eq has_keyword_def keyword_scan_iff
      split: option.splits)

lemma risk_logic_eq:
  "risk_logic res t lbl =
     (if has_keyword res (u ''High'') t then High
      else if lbl \<in> set HIGH_STAKES_LABELS then High
      else if has_keyword res (u ''Medium'') t then Medium else Low)"
  by (simp add: risk_logic_def after_medium_rules_eq)

lemma analyze_risk_level:
  "risk_level (fst (analyze_single_clause res clause)) =
     risk_logic res (str_lower res (working_text res clause))
       (label_of res (working_text res clause))"
  by (simp add: analyze_single_clause_def working_text_def Let_def)

lemma analyze_label:
  "label (fst (analyze_single_clause res clause)) = label_of res (working_text res clause)"
  by (simp add: analyze_single_clause_def working_text_def Let_def)


section \<open>Rule dominance\<close>

text \<open>
  C2.  Whenever the lower-cased working text (the clause, or its translation when the clause
  is Hindi) contains a configured High keyword as a substring, the final risk level is High,
  whatever the classifier answers.
\<close>

theorem high_keyword_dominates:
  assumes "has_keyword res (u ''High'') (str_lower res (working_text res clause))"
  shows "risk_level (fst (analyze_single_clause res clause)) = High"
  using assms by (simp add: analyze_risk_level risk_logic_eq)

theorem high_keyword_dominates_witness:
  "has_keyword (example_resources (u ''Payment Terms'') ConnectionFailed) (u ''High'')
     (str_lower (example_resources (u ''Payment Terms'') ConnectionFailed)
        (working_text (example_resources (u ''Payment Terms'') ConnectionFailed)
           (u ''The Buyer accepts UNLIMITED exposure.'')))
   \<and> risk_level (fst (analyze_single_clause
        (example_resources (u ''Payment Terms'') ConnectionFailed)
        (u ''The Buyer accepts UNLIMITED exposure.''))) = High"
proof -
  have h: "has_keyword (example_resources (u ''Payment Terms'') ConnectionFailed) (u ''High'')
     (str_lower (example_resources (u ''Payment Terms'') ConnectionFailed)
        (working_text (example_resources (u ''Payment Terms'') ConnectionFailed)
           (u ''The Buyer accepts UNLIMITED exposure.'')))"
    by (simp add: has_keyword_def example_resources_def example_rules_def u_def ascii_lower_def
        working_text_def language_branch_def is_hindi_def)
  from h high_keyword_dominates [OF h] show ?thesis by simp
qed

section \<open>The Medium verdict and the classifier label\<close>

text \<open>
  C1 as stated fails.  With no High keyword and the Medium keyword \<open>penalty\<close> in the text, a
  clause that the classifier labels \<open>Liability\<close> ends at High, not Medium: the label check
  runs after the Medium scan and is guarded by \<open>final_risk != "High"\<close> only.
\<close>

theorem medium_verdict_counterexample:
  "\<not> has_keyword (example_resources (u ''Liability'') ConnectionFailed) (u ''High'')
       (str_lower (example_resources (u ''Liability'') ConnectionFailed)
          (working_text (example_resources (u ''Liability'') ConnectionFailed)
             (u ''A late fee is a penalty.'')))
   \<and> has_keyword (example_resources (u ''Liability'') ConnectionFailed) (u ''Medium'')
       (str_lower (example_resources (u ''Liability'') ConnectionFailed)
          (working_text (example_resources (u ''Liability'') ConnectionFailed)
             (u ''A late fee is a penalty.'')))
   \<and> label (fst (analyze_single_clause (example_resources (u ''Liability'') ConnectionFailed)
        (u ''A late fee is a penalty.''))) = u ''Liability''
   \<and> risk_level (fst (analyze_single_clause (example_resources (u ''Liability'') ConnectionFailed)
        (u ''A late fee is a penalty.''))) \<noteq> Medium"
  by (simp add: analyze_risk_level analyze_label risk_logic_eq has_keyword_def
      example_resources_def example_rules_def u_def ascii_lower_def working_text_def
      language_branch_def is_hindi_def label_of_def pred_id_of_def argmax_def
      HIGH_STAKES_LABELS_def)

text \<open>
  C1, amended.  When the lower-cased working text contains no configured High keyword but
  contains a configured Medium keyword, the final risk level is High if the classifier's
  label is one of Indemnity, Liability, Termination, and Medium otherwise.
\<close>

theorem medium_keyword_verdict:
  assumes "\<not> has_keyword res (u ''High'') (str_lower res (working_text res clause))"
    and "has_keyword res (u ''Medium'') (str_lower res (working_text res clause))"
  shows "risk_level (fst (analyze_single_clause res clause)) =
           (if label (fst (analyze_single_clause res clause)) \<in> set HIGH_STAKES_LABELS
            then High else Medium)"
  using assms by (simp add: analyze_risk_level analyze_label risk_logic_eq)

theorem medium_keyword_verdict_witness:
  "\<not> has_keyword (example_resources (u ''Payment Terms'') ConnectionFailed) (u ''High'')
       (str_lower (example_resources (u ''Payment Terms'') ConnectionFailed)
          (working_text (example_resources (u ''Payment Terms'') ConnectionFailed)
             (u ''A late fee is a penalty.'')))
   \<and> has_keyword (example_resources (u ''Payment Terms'') ConnectionFailed) (u ''Medium'')
       (str_lower (example_resources (u ''Payment Terms'') ConnectionFailed)
          (working_text (example_resources (u ''Payment Terms'') ConnectionFailed)
             (u ''A late fee is a penalty.'')))
   \<and> risk_level (fst (analyze_single_clause
        (example_resources (u ''Payment Terms'') ConnectionFailed)
        (u ''A late fee is a penalty.''))) = Medium"
proof -
  let ?R = "example_resources (u ''Payment Terms'') ConnectionFailed"
  let ?c = "u ''A late fee is a penalty.''"
  have h1: "\<not> has_keyword ?R (u ''High'') (str_lower ?R (working_text ?R ?c))"
    by (simp add: has_keyword_def example_resources_def example_rules_def u_def ascii_lower_def
        working_text_def language_branch_def is_hindi_def)
  have h2: "has_keyword ?R (u ''Medium'') (str_lower ?R (working_text ?R ?c))"
    by (simp add: has_keyword_def example_resources_def example_rules_def u_def ascii_lower_def
        working_text_def language_branch_def is_hindi_def)
  have l: "label (fst (analyze_single_clause ?R ?c)) \<notin> set HIGH_STAKES_LABELS"
    by (simp add: analyze_label label_of_def pred_id_of_def argmax_def example_resources_def
        HIGH_STAKES_LABELS_def u_def)
  from medium_keyword_verdict [OF h1 h2] l h1 h2 show ?thesis by simp
qed

section \<open>The safer alternative\<close>

lemma catalog_nonempty: "t \<in> set SAFE_CATALOG \<Longrightarrow> t \<noteq> []"
  unfolding SAFE_CATALOG_def SAFE_LIABILITY_def SAFE_TERMINATION_def SAFE_INDEMNITY_def
    SAFE_FORCE_MAJEURE_def SAFE_BREACH_PENALTIES_def SAFE_NON_COMPETE_def
    SAFE_CONFIDENTIALITY_def SAFE_GENERAL_def u_def
  by auto

lemma select_template_catalog: "select_template l t \<in> set SAFE_CATALOG"
  by (simp add: select_template_def SAFE_CATALOG_def)

lemma accept_refinement_cases:
  "accept_refinement g ml = ml \<or>
   (g = Some (accept_refinement g ml) \<and> 20 < length (accept_refinement g ml)
      \<and> length (accept_refinement g ml) \<le> 250)"
  by (simp add: accept_refinement_def split: option.splits)

lemma analyze_safer_alternative:
  "safer_alternative (fst (analyze_single_clause res clause)) =
     fst (suggestion_step res (working_text res clause)
            (label (fst (analyze_single_clause res clause)))
            (risk_level (fst (analyze_single_clause res clause)))
            (rule_summary (fst (analyze_single_clause res clause)))
            (str_lower res (working_text res clause)))"
  by (simp add: analyze_single_clause_def working_text_def Let_def)

lemma suggestion_step_high:
  "fst (suggestion_step res txt lbl High summary lt) \<in> set SAFE_CATALOG \<or>
   (select_template (label_lower_of res lbl) lt = SAFE_GENERAL
    \<and> fst (generate_gemini_safer_alternative res txt lbl High summary SAFE_GENERAL)
        = Some (fst (suggestion_step res txt lbl High summary lt))
    \<and> 20 < length (fst (suggestion_step res txt lbl High summary lt))
    \<and> length (fst (suggestion_step res txt lbl High summary lt)) \<le> 250)"
proof (cases "\<not> is_common_type res lbl \<and> select_template (label_lower_of res lbl) lt = SAFE_GENERAL")
  case True
  let ?g = "fst (generate_gemini_safer_alternative res txt lbl High summary SAFE_GENERAL)"
  have eq: "fst (suggestion_step res txt lbl High summary lt) = accept_refinement ?g SAFE_GENERAL"
    using True by (simp add: suggestion_step_def Let_def)
  have "SAFE_GENERAL \<in> set SAFE_CATALOG" by (simp add: SAFE_CATALOG_def)
  then show ?thesis
    using True accept_refinement_cases [of ?g SAFE_GENERAL] unfolding eq by metis
next
  case False
  then have "fst (suggestion_step res txt lbl High summary lt)
               = select_template (label_lower_of res lbl) lt"
    by (auto simp: suggestion_step_def Let_def)
  then show ?thesis using select_template_catalog by simp
qed

lemma suggestion_step_low:
  "r \<noteq> High \<Longrightarrow> r \<noteq> Critical \<Longrightarrow> fst (suggestion_step res txt lbl r summary lt) = []"
  by (simp add: suggestion_step_def)

text \<open>
  C3.  When the final risk level is High, \<open>safer_alternative\<close> is a non-empty string that
  is either one of the fixed templates (the seven typed ones or the generic one) or the
  answer that \<open>generate_gemini_safer_alternative\<close> gave for the generic template, of a
  length above 20 and at most 250.  When the final risk level is Low or Medium it is the
  empty string.
\<close>

theorem safer_alternative_by_risk:
  "(risk_level (fst (analyze_single_clause res clause)) = High \<longrightarrow>
      safer_alternative (fst (analyze_single_clause res clause)) \<noteq> []
      \<and> (safer_alternative (fst (analyze_single_clause res clause)) \<in> set SAFE_CATALOG
         \<or> (select_template
               (label_lower_of res (label (fst (analyze_single_clause res clause))))
               (str_lower res (working_text res clause)) = SAFE_GENERAL
             \<and> fst (generate_gemini_safer_alternative res (working_text res clause)
                      (label (fst (analyze_single_clause res clause))) High
                      (rule_summary (fst (analyze_single_clause res clause))) SAFE_GENERAL)
                 = Some (safer_alternative (fst (analyze_single_clause res clause)))
             \<and> 20 < length (safer_alternative (fst (analyze_single_clause res clause)))
             \<and> length (safer_alternative (fst (analyze_single_clause res clause))) \<le> 250)))
   \<and> (risk_level (fst (analyze_single_clause res clause)) = Low
        \<or> risk_level (fst (analyze_single_clause res clause)) = Medium \<longrightarrow>
      safer_alternative (fst (analyze_single_clause res clause)) = [])"
proof -
  let ?r = "fst (analyze_single_clause res clause)"
  have high: "risk_level ?r = High \<Longrightarrow>
      safer_alternative ?r \<in> set SAFE_CATALOG
      \<or> (select_template (label_lower_of res (label ?r)) (str_lower res (working_text res clause))
            = SAFE_GENERAL
          \<and> fst (generate_gemini_safer_alternative res (working_text res clause) (label ?r) High
                   (rule_summary ?r) SAFE_GENERAL) = Some (safer_alternative ?r)
          \<and> 20 < length (safer_alternative ?r) \<and> length (safer_alternative ?r) \<le> 250)"
    using suggestion_step_high [of res "working_text res clause" "label ?r" "rule_summary ?r"
        "str_lower res (working_text res clause)"]
    by (simp add: analyze_safer_alternative)
  have ne: "risk_level ?r = High \<Longrightarrow> safer_alternative ?r \<noteq> []"
    using high catalog_nonempty by fastforce
  have low: "risk_level ?r = Low \<or> risk_level ?r = Medium \<Longrightarrow> safer_alternative ?r = []"
    using suggestion_step_low [of "risk_level ?r"] by (auto simp: analyze_safer_alternative)
  from high ne low show ?thesis by blast
qed


theorem safer_alternative_by_risk_witness:
  "risk_level (fst (analyze_single_clause
       (example_resources (u ''Payment Terms'') ConnectionFailed)
       (u ''The Buyer accepts UNLIMITED exposure.''))) = High
   \<and> safer_alternative (fst (analyze_single_clause
       (example_resources (u ''Payment Terms'') ConnectionFailed)
       (u ''The Buyer accepts UNLIMITED exposure.''))) \<noteq> []
   \<and> risk_level (fst (analyze_single_clause
       (example_resources (u ''Payment Terms'') ConnectionFailed)
       (u ''Payment is due in 30 days.''))) = Low
   \<and> safer_alternative (fst (analyze_single_clause
       (example_resources (u ''Payment Terms'') ConnectionFailed)
       (u ''Payment is due in 30 days.''))) = []"
proof -
  let ?R = "example_resources (u ''Payment Terms'') ConnectionFailed"
  have h: "risk_level (fst (analyze_single_clause ?R (u ''The Buyer accepts UNLIMITED exposure.'')))
             = High"
    by (simp add: analyze_risk_level risk_logic_eq has_keyword_def example_resources_def
        example_rules_def u_def ascii_lower_def working_text_def language_branch_def is_hindi_def)
  have l: "risk_level (fst (analyze_single_clause ?R (u ''Payment is due in 30 days.''))) = Low"
    by (simp add: analyze_risk_level risk_logic_eq has_keyword_def example_resources_def
        example_rules_def u_def ascii_lower_def working_text_def language_branch_def is_hindi_def
        label_of_def pred_id_of_def argmax_def HIGH_STAKES_LABELS_def)
  from h l
    safer_alternative_by_risk [of ?R "u ''The Buyer accepts UNLIMITED exposure.''"]
    safer_alternative_by_risk [of ?R "u ''Payment is due in 30 days.''"]
  show ?thesis by blast
qed

section \<open>The confidence field\<close>








section \<open>When the chat-completion API is called\<close>

lemma analyze_calls:
  "snd (analyze_single_clause res clause) =
     snd (language_branch res clause)
     @ [BertClassify (working_text res clause)]
     @ snd (summary_step res (is_hindi clause) (working_text res clause)
              (str_lower res (working_text res clause)))
     @ snd (suggestion_step res (working_text res clause)
              (label (fst (analyze_single_clause res clause)))
              (risk_level (fst (analyze_single_clause res clause)))
              (rule_summary (fst (analyze_single_clause res clause)))
              (str_lower res (working_text res clause)))
     @ [LimeExplain (working_text res clause) (pred_id_of res (working_text res clause))]"
  by (simp add: analyze_single_clause_def working_text_def Let_def)

lemma language_branch_calls:
  "snd (language_branch res clause) = [] \<or>
   snd (language_branch res clause) = [GoogleTranslate clause]"
  by (simp add: language_branch_def translate_to_english_def)

lemma summary_step_calls:
  "snd (summary_step res hindi txt lt) = [] \<or> snd (summary_step res hindi txt lt) = [T5Summarize txt]"
  by (simp add: summary_step_def generate_t5_summary_def)

lemma suggestion_step_calls:
  "snd (suggestion_step res txt lbl r summary lt) =
     (if (r = High \<or> r = Critical) \<and> \<not> is_common_type res lbl
          \<and> select_template (label_lower_of res lbl) lt = SAFE_GENERAL
      then [OpenRouterPost (gemini_request txt lbl r summary SAFE_GENERAL)] else [])"
  by (simp add: suggestion_step_def generate_gemini_safer_alternative_def Let_def)

lemma openrouter_in_calls:
  "OpenRouterPost req \<in> set (snd (analyze_single_clause res clause)) \<longleftrightarrow>
   OpenRouterPost req \<in> set (snd (suggestion_step res (working_text res clause)
              (label (fst (analyze_single_clause res clause)))
              (risk_level (fst (analyze_single_clause res clause)))
              (rule_summary (fst (analyze_single_clause res clause)))
              (str_lower res (working_text res clause))))"
  using language_branch_calls [of res clause]
    summary_step_calls [of res "is_hindi clause" "working_text res clause"
      "str_lower res (working_text res clause)"]
  by (auto simp: analyze_calls)

lemma SAFE_GENERAL_long: "SAFE_GENERAL \<noteq> [] \<and> 50 < length SAFE_GENERAL"
  by (simp add: SAFE_GENERAL_def u_def)

lemma ex1_label:
  "label (fst (analyze_single_clause (example_resources lbl reply) clause)) = lbl"
  by (simp add: analyze_label label_of_def pred_id_of_def argmax_def example_resources_def)

lemma ex1_called:
  "OpenRouterPost (LLMRequest RefineTemplate (u ''The Buyer accepts UNLIMITED exposure.'')
       (u ''Payment Terms'') High SAFE_GENERAL 150)
     \<in> set (snd (analyze_single_clause (example_resources (u ''Payment Terms'') ConnectionFailed)
          (u ''The Buyer accepts UNLIMITED exposure.'')))"
proof -
  let ?R = "example_resources (u ''Payment Terms'') ConnectionFailed"
  let ?c = "u ''The Buyer accepts UNLIMITED exposure.''"
  have w: "working_text ?R ?c = ?c"
    by (simp add: working_text_def language_branch_def is_hindi_def u_def)
  have lo: "str_lower ?R = ascii_lower" by (simp add: example_resources_def)
  have r: "risk_level (fst (analyze_single_clause ?R ?c)) = High"
    by (simp add: analyze_risk_level risk_logic_eq has_keyword_def example_resources_def
        example_rules_def u_def ascii_lower_def working_text_def language_branch_def is_hindi_def)
  have nc: "\<not> is_common_type ?R (u ''Payment Terms'')"
    by (simp add: is_common_type_def label_lower_of_def example_resources_def
        COMMON_CLAUSE_TYPES_def u_def ascii_lower_def)
  have t: "select_template (label_lower_of ?R (u ''Payment Terms'')) (ascii_lower ?c) = SAFE_GENERAL"
    by (simp add: select_template_def label_lower_of_def example_resources_def u_def
        ascii_lower_def)
  show ?thesis
    using nc t SAFE_GENERAL_long
    by (simp add: openrouter_in_calls suggestion_step_calls ex1_label r w lo gemini_request_def)
qed

text \<open>
  C5.  A request to the chat-completion API appears among the calls of an analysis only if
  the lower-cased classifier label contains none of the common-type substrings and the
  selected template is the generic one; when the label is of a common type, no such request
  is made.
\<close>

theorem llm_only_for_uncommon_generic:
  "(OpenRouterPost req \<in> set (snd (analyze_single_clause res clause)) \<longrightarrow>
      \<not> is_common_type res (label (fst (analyze_single_clause res clause)))
      \<and> select_template
           (label_lower_of res (label (fst (analyze_single_clause res clause))))
           (str_lower res (working_text res clause)) = SAFE_GENERAL)
   \<and> (is_common_type res (label (fst (analyze_single_clause res clause))) \<longrightarrow>
        OpenRouterPost req \<notin> set (snd (analyze_single_clause res clause)))"
  by (simp add: openrouter_in_calls suggestion_step_calls)

theorem llm_only_for_uncommon_generic_witness:
  "OpenRouterPost (LLMRequest RefineTemplate (u ''The Buyer accepts UNLIMITED exposure.'')
       (u ''Payment Terms'') High SAFE_GENERAL 150)
     \<in> set (snd (analyze_single_clause (example_resources (u ''Payment Terms'') ConnectionFailed)
          (u ''The Buyer accepts UNLIMITED exposure.'')))
   \<and> \<not> is_common_type (example_resources (u ''Payment Terms'') ConnectionFailed)
         (label (fst (analyze_single_clause
            (example_resources (u ''Payment Terms'') ConnectionFailed)
            (u ''The Buyer accepts UNLIMITED exposure.''))))
   \<and> is_common_type (example_resources (u ''Liability'') ConnectionFailed)
         (label (fst (analyze_single_clause
            (example_resources (u ''Liability'') ConnectionFailed)
            (u ''The Buyer accepts UNLIMITED exposure.''))))
   \<and> OpenRouterPost (LLMRequest RefineTemplate (u ''The Buyer accepts UNLIMITED exposure.'')
       (u ''Liability'') High SAFE_GENERAL 150)
     \<notin> set (snd (analyze_single_clause (example_resources (u ''Liability'') ConnectionFailed)
          (u ''The Buyer accepts UNLIMITED exposure.'')))"
proof -
  let ?c = "u ''The Buyer accepts UNLIMITED exposure.''"
  let ?A = "example_resources (u ''Payment Terms'') ConnectionFailed"
  let ?B = "example_resources (u ''Liability'') ConnectionFailed"
  have b: "is_common_type ?B (label (fst (analyze_single_clause ?B ?c)))"
    unfolding ex1_label
    by (simp add: is_common_type_def label_lower_of_def example_resources_def
        COMMON_CLAUSE_TYPES_def u_def ascii_lower_def)
  have a: "label (fst (analyze_single_clause ?A ?c)) = u ''Payment Terms''"
    by (rule ex1_label)
  from ex1_called a b
    llm_only_for_uncommon_generic [of
      "LLMRequest RefineTemplate ?c (u ''Payment Terms'') High SAFE_GENERAL 150" ?A ?c]
    llm_only_for_uncommon_generic [of
      "LLMRequest RefineTemplate ?c (u ''Liability'') High SAFE_GENERAL 150" ?B ?c]
  show ?thesis by blast
qed

section \<open>Original text, translation and the empty request\<close>

lemma analyze_text_field: "text_field (fst (analyze_single_clause res clause)) = clause"
  by (simp add: analyze_single_clause_def Let_def)

lemma analyze_rule_summary:
  "rule_summary (fst (analyze_single_clause res clause)) =
     fst (summary_step res (is_hindi clause) (working_text res clause)
            (str_lower res (working_text res clause)))"
  by (simp add: analyze_single_clause_def working_text_def Let_def)

lemma bert_in_calls:
  "BertClassify (working_text res clause) \<in> set (snd (analyze_single_clause res clause))"
  by (simp add: analyze_calls)

lemma working_text_cases:
  "working_text res clause =
     (if is_hindi clause then
        (if py_in HINDI_LIABLE clause \<or> py_in HINDI_DAMAGES clause then LIABLE_TRANSLATION
         else (case translator res clause of None \<Rightarrow> clause | Some t \<Rightarrow> t))
      else clause)"
  by (simp add: working_text_def language_branch_def translate_to_english_def)

lemma hardcoded_is_hindi:
  assumes "py_in HINDI_LIABLE clause \<or> py_in HINDI_DAMAGES clause"
  shows "is_hindi clause"
proof -
  from assms obtain p k q where c: "clause = p @ k @ q" and k: "k = HINDI_LIABLE \<or> k = HINDI_DAMAGES"
    unfolding py_in_iff by blast
  have "is_hindi k" using k by (auto simp: is_hindi_def HINDI_LIABLE_def HINDI_DAMAGES_def)
  then show ?thesis unfolding c is_hindi_def by simp
qed

lemma analyze_depends_on_working_text:
  assumes "working_text res c1 = working_text res c2" and "is_hindi c1 = is_hindi c2"
  shows "fst (analyze_single_clause res c2) = (fst (analyze_single_clause res c1))\<lparr>text_field := c2\<rparr>"
  using assms by (simp add: analyze_single_clause_def working_text_def Let_def)

text \<open>
  C7 fails on the code for the summary route.  \<open>analyze_document\<close> answers an empty (or
  absent) text with status 400 before any collaborator is called, but \<open>summarize\<close> has no
  such check: it runs the whole analysis on the empty string (the classifier is called on
  it) and answers with the summary.
\<close>

theorem summarize_accepts_empty_text:
  "fst (summarize res (Some [])) = Inr (rule_summary (fst (analyze_single_clause res [])))
   \<and> BertClassify [] \<in> set (snd (summarize res (Some [])))
   \<and> fst (summarize res None) = Inr (rule_summary (fst (analyze_single_clause res [])))
   \<and> BertClassify [] \<in> set (snd (summarize res None))
   \<and> analyze_document res (Some []) = (Inl (HttpError 400 (u ''Empty text'')), [])
   \<and> analyze_document res None = (Inl (HttpError 400 (u ''Empty text'')), [])"
proof -
  have w: "working_text res [] = []" by (simp add: working_text_cases is_hindi_def)
  have b: "BertClassify [] \<in> set (snd (analyze_single_clause res []))"
    using bert_in_calls [of res "[]"] by (simp add: w)
  show ?thesis using b
    by (simp add: summarize_def analyze_document_def request_text_def Let_def)
qed

text \<open>
  C8.  The \<open>text\<close> entry of the returned record is the input clause, whatever the language
  branch did.  The classifier is called on the working text, which for a Hindi clause
  (without the two hard-coded words) is the translator's answer, and is the clause itself
  when the translator raises.
\<close>

theorem original_text_preserved:
  "text_field (fst (analyze_single_clause res clause)) = clause
   \<and> BertClassify (working_text res clause) \<in> set (snd (analyze_single_clause res clause))
   \<and> (is_hindi clause \<and> \<not> py_in HINDI_LIABLE clause \<and> \<not> py_in HINDI_DAMAGES clause \<longrightarrow>
        working_text res clause = (case translator res clause of None \<Rightarrow> clause | Some t \<Rightarrow> t))
   \<and> (translator res clause = None \<and> \<not> py_in HINDI_LIABLE clause
        \<and> \<not> py_in HINDI_DAMAGES clause \<longrightarrow> working_text res clause = clause)"
proof -
  have "is_hindi clause \<and> \<not> py_in HINDI_LIABLE clause \<and> \<not> py_in HINDI_DAMAGES clause \<longrightarrow>
        working_text res clause = (case translator res clause of None \<Rightarrow> clause | Some t \<Rightarrow> t)"
    by (simp add: working_text_cases)
  moreover have "translator res clause = None \<and> \<not> py_in HINDI_LIABLE clause
        \<and> \<not> py_in HINDI_DAMAGES clause \<longrightarrow> working_text res clause = clause"
    by (simp add: working_text_cases)
  ultimately show ?thesis
    using analyze_text_field [of res clause] bert_in_calls [of res clause] by blast
qed

theorem original_text_preserved_witness:
  "is_hindi [2325, 2352] \<and> \<not> py_in HINDI_LIABLE [2325, 2352] \<and> \<not> py_in HINDI_DAMAGES [2325, 2352]
   \<and> translator (example_resources (u ''Other'') ConnectionFailed) [2325, 2352] = None
   \<and> working_text (example_resources (u ''Other'') ConnectionFailed) [2325, 2352] = [2325, 2352]
   \<and> text_field (fst (analyze_single_clause (example_resources (u ''Other'') ConnectionFailed)
        [2325, 2352])) = [2325, 2352]
   \<and> working_text ((example_resources (u ''Other'') ConnectionFailed)
        \<lparr>translator := \<lambda>_. Some (u ''tax'')\<rparr>) [2325, 2352] = u ''tax''
   \<and> text_field (fst (analyze_single_clause ((example_resources (u ''Other'') ConnectionFailed)
        \<lparr>translator := \<lambda>_. Some (u ''tax'')\<rparr>) [2325, 2352])) = [2325, 2352]"
proof -
  let ?R = "example_resources (u ''Other'') ConnectionFailed"
  let ?c = "[2325, 2352] :: ustr"
  have h: "is_hindi ?c \<and> \<not> py_in HINDI_LIABLE ?c \<and> \<not> py_in HINDI_DAMAGES ?c"
    by (simp add: is_hindi_def HINDI_LIABLE_def HINDI_DAMAGES_def)
  have t: "translator ?R ?c = None" by (simp add: example_resources_def)
  have t': "translator (?R\<lparr>translator := \<lambda>_. Some (u ''tax'')\<rparr>) ?c = Some (u ''tax'')"
    by simp
  from h t t' original_text_preserved [of ?R ?c]
    original_text_preserved [of "?R\<lparr>translator := \<lambda>_. Some (u ''tax'')\<rparr>" ?c]
  show ?thesis by simp
qed

text \<open>
  C10.  For a text containing one of the two hard-coded Devanagari words,
  \<open>translate_to_english\<close> returns the fixed English sentence and the external translator
  is not called.  Such a clause contains a Devanagari code point, so the analysis runs on
  that sentence: label, risk level and summary are those of the fixed sentence, and any two
  such clauses get the same record apart from the \<open>text\<close> entry.
\<close>

theorem hardcoded_translation:
  assumes "py_in HINDI_LIABLE clause \<or> py_in HINDI_DAMAGES clause"
    and "py_in HINDI_LIABLE clause' \<or> py_in HINDI_DAMAGES clause'"
  shows "translate_to_english res clause = (LIABLE_TRANSLATION, [])
    \<and> working_text res clause = LIABLE_TRANSLATION
    \<and> GoogleTranslate t \<notin> set (snd (analyze_single_clause res clause))
    \<and> BertClassify LIABLE_TRANSLATION \<in> set (snd (analyze_single_clause res clause))
    \<and> label (fst (analyze_single_clause res clause)) = label_of res LIABLE_TRANSLATION
    \<and> risk_level (fst (analyze_single_clause res clause)) =
        risk_logic res (str_lower res LIABLE_TRANSLATION) (label_of res LIABLE_TRANSLATION)
    \<and> rule_summary (fst (analyze_single_clause res clause)) =
        fst (summary_step res True LIABLE_TRANSLATION (str_lower res LIABLE_TRANSLATION))
    \<and> fst (analyze_single_clause res clause') =
        (fst (analyze_single_clause res clause))\<lparr>text_field := clause'\<rparr>"
proof -
  have h: "is_hindi clause" and h': "is_hindi clause'"
    using assms hardcoded_is_hindi by blast+
  have w: "working_text res clause = LIABLE_TRANSLATION"
    and w': "working_text res clause' = LIABLE_TRANSLATION"
    using assms h h' by (simp_all add: working_text_cases)
  have tr: "translate_to_english res clause = (LIABLE_TRANSLATION, [])"
    using assms(1) by (simp add: translate_to_english_def)
  have lb: "snd (language_branch res clause) = []"
    using h tr by (simp add: language_branch_def)
  have nt: "GoogleTranslate t \<notin> set (snd (analyze_single_clause res clause))"
    using summary_step_calls [of res "is_hindi clause" "working_text res clause"
        "str_lower res (working_text res clause)"]
    by (auto simp: analyze_calls lb suggestion_step_calls)
  have b: "BertClassify LIABLE_TRANSLATION \<in> set (snd (analyze_single_clause res clause))"
    using bert_in_calls [of res clause] by (simp add: w)
  have eq: "fst (analyze_single_clause res clause') =
        (fst (analyze_single_clause res clause))\<lparr>text_field := clause'\<rparr>"
    by (rule analyze_depends_on_working_text) (simp_all add: w w' h h')
  show ?thesis
    using tr w nt b eq h
    by (simp add: analyze_label analyze_risk_level analyze_rule_summary)
qed

theorem hardcoded_translation_witness:
  "py_in HINDI_LIABLE (HINDI_LIABLE @ [32, 2361, 2376])
   \<and> py_in HINDI_DAMAGES (u ''Clause 7: '' @ HINDI_DAMAGES)
   \<and> translate_to_english (example_resources (u ''Liability'') ConnectionFailed)
        (HINDI_LIABLE @ [32, 2361, 2376]) = (LIABLE_TRANSLATION, [])
   \<and> working_text (example_resources (u ''Liability'') ConnectionFailed)
        (HINDI_LIABLE @ [32, 2361, 2376]) = LIABLE_TRANSLATION
   \<and> fst (analyze_single_clause (example_resources (u ''Liability'') ConnectionFailed)
        (u ''Clause 7: '' @ HINDI_DAMAGES)) =
      (fst (analyze_single_clause (example_resources (u ''Liability'') ConnectionFailed)
        (HINDI_LIABLE @ [32, 2361, 2376])))\<lparr>text_field := u ''Clause 7: '' @ HINDI_DAMAGES\<rparr>"
proof -
  have a: "py_in HINDI_LIABLE (HINDI_LIABLE @ [32, 2361, 2376])"
    unfolding py_in_iff by (rule exI [of _ "[]"], rule exI [of _ "[32, 2361, 2376]"]) simp
  have b: "py_in HINDI_DAMAGES (u ''Clause 7: '' @ HINDI_DAMAGES)"
    unfolding py_in_iff by (rule exI [of _ "u ''Clause 7: ''"], rule exI [of _ "[]"]) simp
  from a b hardcoded_translation [OF disjI1 [OF a] disjI2 [OF b], of
      "example_resources (u ''Liability'') ConnectionFailed" "[]"]
  show ?thesis by simp
qed

section \<open>The length test on a refinement\<close>

lemma py_strip_with_replicate:
  "\<not> p x \<Longrightarrow> py_strip_with p (replicate n x) = replicate n x"
  by (simp add: py_strip_with_def)

lemma not_prefix_replicate: "c \<noteq> x \<Longrightarrow> \<not> prefix (c # cs) (replicate n x)"
  by (cases n) simp_all

lemma clean_response_xs:
  "clean_response (example_resources lbl reply) (replicate n 120) = replicate n 120"
proof -
  have s: "py_strip (py_strip_chars [39] (py_strip_chars [34] (py_strip (replicate n 120))))
             = replicate n 120"
    by (simp add: py_strip_def py_strip_chars_def py_strip_with_replicate isspace_def)
  have r: "\<And>p. p \<in> set GEMINI_PREFIXES \<Longrightarrow>
             remove_prefix (example_resources lbl reply) (replicate n 120) p = replicate n 120"
    by (auto simp: GEMINI_PREFIXES_def remove_prefix_def example_resources_def ascii_lower_def
        u_def not_prefix_replicate)
  have f: "\<And>ps. set ps \<subseteq> set GEMINI_PREFIXES \<Longrightarrow>
             foldl (remove_prefix (example_resources lbl reply)) (replicate n 120) ps
               = replicate n 120"
  proof -
    fix ps show "set ps \<subseteq> set GEMINI_PREFIXES \<Longrightarrow>
             foldl (remove_prefix (example_resources lbl reply)) (replicate n 120) ps
               = replicate n 120"
      by (induction ps) (simp_all add: r)
  qed
  show ?thesis unfolding clean_response_def s by (rule f) simp
qed

text \<open>
  C6 fails on the code at the upper bound.  The test is \<open>20 < len <= 250\<close>, so an answer
  of exactly 250 characters replaces the template, although the comment above the test says
  the answer is used only when it is under 250 characters.  Here the API answers with 250
  times the letter \<open>x\<close> for a High-risk clause whose label is not of a common type: the
  request is made and the 250 characters become the safer alternative.
\<close>

theorem refinement_of_250_chars_accepted:
  "length (replicate 250 (120::nat)) = 250
   \<and> OpenRouterPost (LLMRequest RefineTemplate (u ''The Buyer accepts UNLIMITED exposure.'')
         (u ''Payment Terms'') High SAFE_GENERAL 150)
       \<in> set (snd (analyze_single_clause
            (example_resources (u ''Payment Terms'')
               (Response 200 (Json (Some [Message (replicate 250 120)]))))
            (u ''The Buyer accepts UNLIMITED exposure.'')))
   \<and> safer_alternative (fst (analyze_single_clause
        (example_resources (u ''Payment Terms'')
           (Response 200 (Json (Some [Message (replicate 250 120)]))))
        (u ''The Buyer accepts UNLIMITED exposure.''))) = replicate 250 120"
proof -
  let ?R = "example_resources (u ''Payment Terms'')
              (Response 200 (Json (Some [Message (replicate 250 120)])))"
  let ?c = "u ''The Buyer accepts UNLIMITED exposure.''"
  have w: "working_text ?R ?c = ?c"
    by (simp add: working_text_def language_branch_def is_hindi_def u_def)
  have lo: "str_lower ?R = ascii_lower" by (simp add: example_resources_def)
  have o: "\<And>req. openrouter ?R req = Response 200 (Json (Some [Message (replicate 250 120)]))"
    by (simp add: example_resources_def)
  have r: "risk_level (fst (analyze_single_clause ?R ?c)) = High"
    by (simp add: analyze_risk_level risk_logic_eq has_keyword_def example_resources_def
        example_rules_def u_def ascii_lower_def working_text_def language_branch_def is_hindi_def)
  have nc: "\<not> is_common_type ?R (u ''Payment Terms'')"
    by (simp add: is_common_type_def label_lower_of_def example_resources_def
        COMMON_CLAUSE_TYPES_def u_def ascii_lower_def)
  have t: "select_template (label_lower_of ?R (u ''Payment Terms'')) (ascii_lower ?c) = SAFE_GENERAL"
    by (simp add: select_template_def label_lower_of_def example_resources_def u_def
        ascii_lower_def)
  have rd: "read_response ?R (Response 200 (Json (Some [Message (replicate 250 120)])))
              = Some (replicate 250 120)"
    unfolding read_response_def by (simp add: clean_response_xs)
  have acc: "accept_refinement (Some (replicate 250 120)) SAFE_GENERAL = replicate 250 120"
    by (simp add: accept_refinement_def)
  have called: "OpenRouterPost (LLMRequest RefineTemplate ?c (u ''Payment Terms'') High
                  SAFE_GENERAL 150) \<in> set (snd (analyze_single_clause ?R ?c))"
    using nc t SAFE_GENERAL_long
    by (simp add: openrouter_in_calls suggestion_step_calls ex1_label r w lo gemini_request_def)
  have sa: "safer_alternative (fst (analyze_single_clause ?R ?c)) = replicate 250 120"
    using nc t
    by (simp add: analyze_safer_alternative suggestion_step_def ex1_label r w lo
        generate_gemini_safer_alternative_def Let_def o rd acc)
  from called sa show ?thesis by simp
qed

section \<open>Segmenting a document again\<close>

lemma py_replace_absent:
  "old \<noteq> [] \<Longrightarrow> \<not> py_in old s \<Longrightarrow> py_replace old new s = s"
  by (induction s) auto

lemma py_split_no_sep: "sep \<notin> set s \<Longrightarrow> py_split sep s = [s]"
  by (induction s) auto

lemma py_split_parts: "w \<in> set (py_split sep s) \<Longrightarrow> sep \<notin> set w"
proof (induction s arbitrary: w)
  case Nil
  then show ?case by simp
next
  case (Cons c cs)
  show ?case
  proof (cases "c = sep")
    case True
    then show ?thesis using Cons by auto
  next
    case False
    show ?thesis
    proof (cases "py_split sep cs")
      case Nil
      then show ?thesis using Cons.prems False by simp
    next
      case (Cons v vs)
      then have "w = c # v \<or> w \<in> set vs" using Cons.prems False by simp
      moreover have "sep \<notin> set v" using Cons.IH [of v] Cons by simp
      moreover have "w \<in> set vs \<Longrightarrow> sep \<notin> set w" using Cons.IH [of w] Cons by simp
      ultimately show ?thesis using False by auto
    qed
  qed
qed

lemma set_py_strip_with: "set (py_strip_with p s) \<subseteq> set s"
  unfolding py_strip_with_def by (auto dest!: set_dropWhileD)

lemma py_strip_with_ends:
  "py_strip_with p s = [] \<or> (\<not> p (hd (py_strip_with p s)) \<and> \<not> p (last (py_strip_with p s)))"
proof (cases "py_strip_with p s = []")
  case True
  then show ?thesis by simp
next
  case False
  let ?t = "dropWhile p s"
  let ?d = "dropWhile p (rev ?t)"
  have d: "?d \<noteq> []" using False by (simp add: py_strip_with_def)
  then have t: "?t \<noteq> []" by (metis dropWhile.simps(1) rev.simps(1))
  have l: "\<not> p (last (py_strip_with p s))"
    using hd_dropWhile [OF d] d by (simp add: py_strip_with_def last_rev)
  have "\<not> p (hd ?t)" using hd_dropWhile [OF t] .
  have ex: "\<exists>ys. rev ?t = ys @ ?d"
    by (metis takeWhile_dropWhile_id)
  then obtain ys where ys: "rev ?t = ys @ ?d" by blast
  have "last (rev ?t) = last ?d" using d by (subst ys) simp
  then have "hd (py_strip_with p s) = hd ?t"
    using d by (simp add: py_strip_with_def hd_rev last_rev)
  then have h: "\<not> p (hd (py_strip_with p s))" using \<open>\<not> p (hd ?t)\<close> by simp
  from h l show ?thesis by simp
qed

lemma py_strip_with_fixed:
  assumes "r = [] \<or> (\<not> p (hd r) \<and> \<not> p (last r))"
  shows "py_strip_with p r = r"
proof (cases "r = []")
  case True
  then show ?thesis by (simp add: py_strip_with_def)
next
  case False
  then have h: "\<not> p (hd r)" and l: "\<not> p (last r)" using assms by auto
  have 1: "dropWhile p r = r" using h by (simp add: dropWhile_eq_self_iff)
  have 2: "dropWhile p (rev r) = rev r" using l False by (simp add: dropWhile_eq_self_iff hd_rev)
  show ?thesis by (simp add: py_strip_with_def 1 2)
qed

lemma py_strip_idem: "py_strip (py_strip s) = py_strip s"
  unfolding py_strip_def by (rule py_strip_with_fixed) (rule py_strip_with_ends)

lemma segment_clauses_member:
  assumes "c \<in> set (segment_clauses raw_text)"
  shows "py_strip c = c \<and> 10 \<notin> set c \<and> 20 < length c"
proof -
  from assms obtain w where
    w: "w \<in> set (py_split 10 (py_replace END_MARKER [] (py_replace START_MARKER [] raw_text)))"
    and c: "c = py_strip w" and len: "20 < length c"
    by (auto simp: segment_clauses_def Let_def)
  have "10 \<notin> set w" using w by (rule py_split_parts)
  then have "10 \<notin> set c" using set_py_strip_with [of isspace w] by (auto simp: c py_strip_def)
  moreover have "py_strip c = c" by (simp add: c py_strip_idem)
  ultimately show ?thesis using len by simp
qed

lemma markers_nonempty: "START_MARKER \<noteq> [] \<and> END_MARKER \<noteq> []"
  by (simp add: START_MARKER_def END_MARKER_def u_def)

text \<open>
  C9 as stated fails.  \<open>str.replace\<close> makes one pass, so removing the end marker can leave a
  start marker behind: the document below yields one clause that still begins with
  \<open>[Start of Document]\<close>, and segmenting that clause again removes the marker and yields a
  different, shorter clause.
\<close>

theorem resegmenting_counterexample:
  "u ''[Start of Document] The parties agree to keep it secret.''
     \<in> set (segment_clauses
          (u ''[Start of [End of Document]Document] The parties agree to keep it secret.''))
   \<and> segment_clauses (u ''[Start of Document] The parties agree to keep it secret.'')
       = [u ''The parties agree to keep it secret.'']
   \<and> segment_clauses (u ''[Start of Document] The parties agree to keep it secret.'')
       \<noteq> [u ''[Start of Document] The parties agree to keep it secret.'']"
  by (simp add: segment_clauses_def START_MARKER_def END_MARKER_def u_def py_strip_def
      py_strip_with_def isspace_def)

text \<open>
  C9, amended.  A clause produced by segmentation that contains neither boundary marker is
  a fixed point: segmenting it as its own document yields exactly that clause.
\<close>

theorem resegmenting_marker_free_clause:
  assumes "c \<in> set (segment_clauses raw_text)"
    and "\<not> py_in START_MARKER c" and "\<not> py_in END_MARKER c"
  shows "segment_clauses c = [c] \<and> processed_clauses c = [c]"
proof -
  from segment_clauses_member [OF assms(1)]
  have s: "py_strip c = c" and n: "10 \<notin> set c" and len: "20 < length c" by simp_all
  have clean: "py_replace END_MARKER [] (py_replace START_MARKER [] c) = c"
    using assms(2,3) markers_nonempty by (simp add: py_replace_absent)
  have ne: "c \<noteq> []" using len by auto
  have "segment_clauses c = [c]"
    using ne len by (simp add: segment_clauses_def clean py_split_no_sep [OF n] s)
  then show ?thesis by (simp add: processed_clauses_def)
qed

theorem resegmenting_marker_free_clause_witness:
  "u ''The parties agree to keep it secret.''
     \<in> set (segment_clauses
          (u ''Intro'' @ [10] @ u ''  The parties agree to keep it secret.  ''))
   \<and> \<not> py_in START_MARKER (u ''The parties agree to keep it secret.'')
   \<and> \<not> py_in END_MARKER (u ''The parties agree to keep it secret.'')
   \<and> segment_clauses (u ''The parties agree to keep it secret.'')
       = [u ''The parties agree to keep it secret.'']
   \<and> processed_clauses (u ''The parties agree to keep it secret.'')
       = [u ''The parties agree to keep it secret.'']"
proof -
  let ?c = "u ''The parties agree to keep it secret.''"
  have m: "?c \<in> set (segment_clauses
             (u ''Intro'' @ [10] @ u ''  The parties agree to keep it secret.  ''))"
    by (simp add: segment_clauses_def START_MARKER_def END_MARKER_def u_def py_strip_def
        py_strip_with_def isspace_def)
  have s: "\<not> py_in START_MARKER ?c" by (simp add: START_MARKER_def u_def)
  have e: "\<not> py_in END_MARKER ?c" by (simp add: END_MARKER_def u_def)
  from m s e resegmenting_marker_free_clause [OF m s e] show ?thesis by simp
qed

end
